theory Spec2Isabelle
  imports Main "HOL-Library.Word"
begin

unbundle bit_operations_syntax

section \<open>The enumeration and its underlying integer type\<close>

text \<open>
  \<^verbatim>\<open>deaddev::bitmask<T>\<close> wraps one value of \<^verbatim>\<open>std::underlying_type_t<T>\<close>. An
  enumeration \<^verbatim>\<open>T\<close> whose underlying type has \<open>LENGTH('a)\<close> bits is modelled by that
  representation: a value of \<^verbatim>\<open>T\<close> is an \<open>'a word\<close>, and \<^verbatim>\<open>static_cast\<close> between
  \<^verbatim>\<open>T\<close> and its underlying type keeps the bits. The bitwise operators of the header
  work on \<^verbatim>\<open>mask_type\<close> operands that are promoted to \<^verbatim>\<open>int\<close> and narrowed back, which
  for \<^verbatim>\<open>|\<close>, \<^verbatim>\<open>&\<close> and \<^verbatim>\<open>^\<close> is the operation on the word itself.

  Two compile-time facts about \<^verbatim>\<open>T\<close> decide how a comparison is evaluated: whether
  the enumeration is scoped (which member overload a raw enum operand selects) and whether
  the underlying type is signed (how the stored bits are read as a number).
\<close>

type_synonym 'a enum_type = "'a word"
type_synonym 'a mask_type = "'a word"

record enum_info =
  is_scoped_enum_v :: bool
  is_signed_v :: bool

definition value_of :: "enum_info \<Rightarrow> 'a::len word \<Rightarrow> int" where
  "value_of E w = (if is_signed_v E then sint w else uint w)"

section \<open>The arithmetic of \<^verbatim>\<open>int\<close> used by the width default\<close>

text \<open>
  \<^verbatim>\<open>calculate_all_flags<T>()\<close> computes in \<^verbatim>\<open>int\<close>, taken as 32 bits wide as on every
  platform the header targets. A signed operation whose behaviour is undefined is not a
  constant expression, so the registration that needs it does not produce a descriptor:
  the model returns \<open>None\<close> there.
\<close>

definition CHAR_BIT :: nat where
  "CHAR_BIT = 8"

definition INT_WIDTH :: nat where
  "INT_WIDTH = 32"

definition INT_MAX :: int where
  "INT_MAX = 2 ^ 31 - 1"

definition INT_MIN :: int where
  "INT_MIN = - (2 ^ 31)"

text \<open>
  \<^verbatim>\<open>E1 << E2\<close> on \<^verbatim>\<open>int\<close> (C++14): undefined when \<^verbatim>\<open>E2\<close> is at least the width of
  \<^verbatim>\<open>int\<close> or \<^verbatim>\<open>E1\<close> is negative; otherwise \<open>E1 * 2 ^ E2\<close> when \<^verbatim>\<open>unsigned\<close> can hold it
  (read back as two's complement), undefined when it cannot.
\<close>

definition shl_int :: "int \<Rightarrow> nat \<Rightarrow> int option" where
  "shl_int e1 e2 =
     (if INT_WIDTH \<le> e2 \<or> e1 < 0 then None
      else if e1 * 2 ^ e2 \<le> INT_MAX then Some (e1 * 2 ^ e2)
      else if e1 * 2 ^ e2 < 2 ^ INT_WIDTH then Some (e1 * 2 ^ e2 - 2 ^ INT_WIDTH)
      else None)"

text \<open>\<^verbatim>\<open>a - b\<close> on \<^verbatim>\<open>int\<close>: undefined on overflow.\<close>

definition sub_int :: "int \<Rightarrow> int \<Rightarrow> int option" where
  "sub_int a b = (if INT_MIN \<le> a - b \<and> a - b \<le> INT_MAX then Some (a - b) else None)"

text \<open>\<^verbatim>\<open>sizeof(T)\<close> in bytes, for an underlying type of \<open>LENGTH('a)\<close> bits.\<close>

definition sizeof :: "'a::len itself \<Rightarrow> nat" where
  "sizeof T = LENGTH('a) div CHAR_BIT"

section \<open>The capability descriptor and the all-flags calculation\<close>

text \<open>\<^verbatim>\<open>template <typename T, T AllFlags> struct bitmask_traits\<close>.\<close>

record (overloaded) 'a bitmask_traits =
  enable :: bool
  all_flags :: "'a word"

text \<open>\<^verbatim>\<open>combine_flags(result, value)\<close>: \<^verbatim>\<open>result |= static_cast<underlying>(value)\<close>;
  the updated \<^verbatim>\<open>result\<close> is returned.\<close>

definition combine_flags :: "'a::len mask_type \<Rightarrow> 'a enum_type \<Rightarrow> 'a mask_type" where
  "combine_flags result val = result OR val"

text \<open>
  \<^verbatim>\<open>calculate_all_flags_cpp_before_17\<close>: the one-argument overload returns its
  argument, the variadic one ORs the first argument with the result for the rest.
\<close>

fun calculate_all_flags_cpp_before_17 :: "'a::len enum_type \<Rightarrow> 'a enum_type list \<Rightarrow> 'a enum_type" where
  "calculate_all_flags_cpp_before_17 val [] = val"
| "calculate_all_flags_cpp_before_17 arg (a # args) =
     arg OR calculate_all_flags_cpp_before_17 a args"

text \<open>
  \<^verbatim>\<open>calculate_all_flags_cpp_17\<close>: \<^verbatim>\<open>result{0}\<close>, then the fold expression
  \<^verbatim>\<open>(combine_flags(result, args), ...)\<close> from left to right.
\<close>

definition calculate_all_flags_cpp_17 :: "'a::len enum_type list \<Rightarrow> 'a enum_type" where
  "calculate_all_flags_cpp_17 args = foldl combine_flags 0 args"

text \<open>
  \<^verbatim>\<open>calculate_all_flags<T>()\<close> without arguments:
  \<^verbatim>\<open>static_cast<T>((1 << (sizeof(T) * CHAR_BIT)) - 1)\<close>, with the literal \<^verbatim>\<open>1\<close> of
  type \<^verbatim>\<open>int\<close>.
\<close>

definition calculate_all_flags_default :: "'a::len itself \<Rightarrow> 'a enum_type option" where
  "calculate_all_flags_default T =
     (case shl_int 1 (sizeof T * CHAR_BIT) of
        None \<Rightarrow> None
      | Some s \<Rightarrow> (case sub_int s 1 of
                    None \<Rightarrow> None
                  | Some r \<Rightarrow> Some (word_of_int r)))"

text \<open>
  \<^verbatim>\<open>calculate_all_flags<T>(args...)\<close>: the overload without parameters is chosen for
  an empty list; otherwise \<^verbatim>\<open>__cplusplus\<close> selects the implementation (\<open>cpp17\<close> is
  \<^verbatim>\<open>__cplusplus >= 201703L\<close>).
\<close>

definition calculate_all_flags :: "bool \<Rightarrow> 'a::len enum_type list \<Rightarrow> 'a enum_type option" where
  "calculate_all_flags cpp17 args =
     (case args of
        [] \<Rightarrow> calculate_all_flags_default TYPE('a)
      | a # rest \<Rightarrow>
          Some (if cpp17 then calculate_all_flags_cpp_17 args
                else calculate_all_flags_cpp_before_17 a rest))"

text \<open>
  \<^verbatim>\<open>DEADDEV_ENABLE_BITMASK(T, ...)\<close> and \<^verbatim>\<open>DEADDEV_ENABLE_BITMASK_EXTERNAL(T, ...)\<close>
  both bind \<^verbatim>\<open>T\<close> to \<^verbatim>\<open>bitmask_traits<T, calculate_all_flags<T>(__VA_ARGS__)>\<close>; they
  differ in how the descriptor is found (argument-dependent lookup or explicit
  specialisation), not in its contents.
\<close>

definition DEADDEV_ENABLE_BITMASK :: "bool \<Rightarrow> 'a::len enum_type list \<Rightarrow> 'a bitmask_traits option" where
  "DEADDEV_ENABLE_BITMASK cpp17 flagList =
     map_option (\<lambda>af. \<lparr>enable = True, all_flags = af\<rparr>) (calculate_all_flags cpp17 flagList)"

definition DEADDEV_ENABLE_BITMASK_EXTERNAL :: "bool \<Rightarrow> 'a::len enum_type list \<Rightarrow> 'a bitmask_traits option" where
  "DEADDEV_ENABLE_BITMASK_EXTERNAL cpp17 flagList =
     map_option (\<lambda>af. \<lparr>enable = True, all_flags = af\<rparr>) (calculate_all_flags cpp17 flagList)"

text \<open>\<^verbatim>\<open>bitmask_all_flags_v<T>\<close>: the descriptor's constant.\<close>

definition bitmask_all_flags_v :: "'a::len bitmask_traits \<Rightarrow> 'a enum_type" where
  "bitmask_all_flags_v tr = all_flags tr"

section \<open>The wrapper class\<close>

text \<open>\<^verbatim>\<open>class bitmask\<close> has the single private field \<^verbatim>\<open>mask_type mask_{}\<close>.\<close>

record (overloaded) 'a bitmask =
  mask_value :: "'a word"

text \<open>The defaulted constructor, \<^verbatim>\<open>bitmask(enum_type)\<close> and the explicit
  \<^verbatim>\<open>bitmask(mask_type)\<close>.\<close>

definition bitmask_default :: "'a::len bitmask" where
  "bitmask_default = \<lparr>mask_value = 0\<rparr>"

definition bitmask_et :: "'a::len enum_type \<Rightarrow> 'a bitmask" where
  "bitmask_et val = \<lparr>mask_value = val\<rparr>"

definition bitmask_mt :: "'a::len mask_type \<Rightarrow> 'a bitmask" where
  "bitmask_mt val = \<lparr>mask_value = val\<rparr>"

text \<open>\<^verbatim>\<open>static bitmask all_flags()\<close>.\<close>

definition all_flags_m :: "'a::len bitmask_traits \<Rightarrow> 'a bitmask" where
  "all_flags_m tr = bitmask_et (bitmask_all_flags_v tr)"

subsection \<open>Member comparisons\<close>

text \<open>The overloads taking \<^verbatim>\<open>mask_type\<close> (suffix \<open>mt\<close>) and \<^verbatim>\<open>bitmask\<close> (suffix
  \<open>bm\<close>).\<close>

definition operator_eq_mt :: "'a::len bitmask \<Rightarrow> 'a mask_type \<Rightarrow> bool" where
  "operator_eq_mt this m = (mask_value this = m)"

definition operator_ne_mt :: "'a::len bitmask \<Rightarrow> 'a mask_type \<Rightarrow> bool" where
  "operator_ne_mt this m = (mask_value this \<noteq> m)"

definition operator_le_mt :: "enum_info \<Rightarrow> 'a::len bitmask \<Rightarrow> 'a mask_type \<Rightarrow> bool" where
  "operator_le_mt E this m = (value_of E (mask_value this) \<le> value_of E m)"

definition operator_ge_mt :: "enum_info \<Rightarrow> 'a::len bitmask \<Rightarrow> 'a mask_type \<Rightarrow> bool" where
  "operator_ge_mt E this m = (value_of E (mask_value this) \<ge> value_of E m)"

definition operator_lt_mt :: "enum_info \<Rightarrow> 'a::len bitmask \<Rightarrow> 'a mask_type \<Rightarrow> bool" where
  "operator_lt_mt E this m = (value_of E (mask_value this) < value_of E m)"

definition operator_gt_mt :: "enum_info \<Rightarrow> 'a::len bitmask \<Rightarrow> 'a mask_type \<Rightarrow> bool" where
  "operator_gt_mt E this m = (value_of E (mask_value this) > value_of E m)"

definition operator_eq_bm :: "'a::len bitmask \<Rightarrow> 'a bitmask \<Rightarrow> bool" where
  "operator_eq_bm this other = (mask_value this = mask_value other)"

definition operator_ne_bm :: "'a::len bitmask \<Rightarrow> 'a bitmask \<Rightarrow> bool" where
  "operator_ne_bm this other = (mask_value this \<noteq> mask_value other)"

definition operator_le_bm :: "enum_info \<Rightarrow> 'a::len bitmask \<Rightarrow> 'a bitmask \<Rightarrow> bool" where
  "operator_le_bm E this other = (value_of E (mask_value this) \<le> value_of E (mask_value other))"

definition operator_ge_bm :: "enum_info \<Rightarrow> 'a::len bitmask \<Rightarrow> 'a bitmask \<Rightarrow> bool" where
  "operator_ge_bm E this other = (value_of E (mask_value this) \<ge> value_of E (mask_value other))"

definition operator_lt_bm :: "enum_info \<Rightarrow> 'a::len bitmask \<Rightarrow> 'a bitmask \<Rightarrow> bool" where
  "operator_lt_bm E this other = (value_of E (mask_value this) < value_of E (mask_value other))"

definition operator_gt_bm :: "enum_info \<Rightarrow> 'a::len bitmask \<Rightarrow> 'a bitmask \<Rightarrow> bool" where
  "operator_gt_bm E this other = (value_of E (mask_value this) > value_of E (mask_value other))"

subsection \<open>Member bitwise operators\<close>

text \<open>\<^verbatim>\<open>operator~\<close>: \<^verbatim>\<open>bitmask(static_cast<mask_type>(mask_ ^ all_flags().mask_))\<close>.\<close>

definition operator_not :: "'a::len bitmask_traits \<Rightarrow> 'a bitmask \<Rightarrow> 'a bitmask" where
  "operator_not tr this = bitmask_mt (mask_value this XOR mask_value (all_flags_m tr))"

definition operator_xor_bm :: "'a::len bitmask \<Rightarrow> 'a bitmask \<Rightarrow> 'a bitmask" where
  "operator_xor_bm this other = bitmask_mt (mask_value this XOR mask_value other)"

definition operator_or_bm :: "'a::len bitmask \<Rightarrow> 'a bitmask \<Rightarrow> 'a bitmask" where
  "operator_or_bm this other = bitmask_mt (mask_value this OR mask_value other)"

definition operator_and_bm :: "'a::len bitmask \<Rightarrow> 'a bitmask \<Rightarrow> 'a bitmask" where
  "operator_and_bm this other = bitmask_mt (mask_value this AND mask_value other)"

text \<open>The compound assignments change \<^verbatim>\<open>mask_\<close> and return \<^verbatim>\<open>*this\<close>: the model
  returns the updated object.\<close>

definition operator_xor_assign_bm :: "'a::len bitmask \<Rightarrow> 'a bitmask \<Rightarrow> 'a bitmask" where
  "operator_xor_assign_bm this other = this\<lparr>mask_value := mask_value this XOR mask_value other\<rparr>"

definition operator_or_assign_bm :: "'a::len bitmask \<Rightarrow> 'a bitmask \<Rightarrow> 'a bitmask" where
  "operator_or_assign_bm this other = this\<lparr>mask_value := mask_value this OR mask_value other\<rparr>"

definition operator_and_assign_bm :: "'a::len bitmask \<Rightarrow> 'a bitmask \<Rightarrow> 'a bitmask" where
  "operator_and_assign_bm this other = this\<lparr>mask_value := mask_value this AND mask_value other\<rparr>"

text \<open>The overloads taking \<^verbatim>\<open>enum_type\<close> (suffix \<open>et\<close>).\<close>

definition operator_xor_et :: "'a::len bitmask \<Rightarrow> 'a enum_type \<Rightarrow> 'a bitmask" where
  "operator_xor_et this other = bitmask_mt (mask_value this XOR other)"

definition operator_or_et :: "'a::len bitmask \<Rightarrow> 'a enum_type \<Rightarrow> 'a bitmask" where
  "operator_or_et this other = bitmask_mt (mask_value this OR other)"

definition operator_and_et :: "'a::len bitmask \<Rightarrow> 'a enum_type \<Rightarrow> 'a bitmask" where
  "operator_and_et this other = bitmask_mt (mask_value this AND other)"

definition operator_xor_assign_et :: "'a::len bitmask \<Rightarrow> 'a enum_type \<Rightarrow> 'a bitmask" where
  "operator_xor_assign_et this other = this\<lparr>mask_value := mask_value this XOR other\<rparr>"

definition operator_or_assign_et :: "'a::len bitmask \<Rightarrow> 'a enum_type \<Rightarrow> 'a bitmask" where
  "operator_or_assign_et this other = this\<lparr>mask_value := mask_value this OR other\<rparr>"

definition operator_and_assign_et :: "'a::len bitmask \<Rightarrow> 'a enum_type \<Rightarrow> 'a bitmask" where
  "operator_and_assign_et this other = this\<lparr>mask_value := mask_value this AND other\<rparr>"

subsection \<open>Membership and mutation helpers\<close>

definition is_set_et :: "'a::len bitmask \<Rightarrow> 'a enum_type \<Rightarrow> bool" where
  "is_set_et this flag = (mask_value this AND flag = flag)"

definition is_set_bm :: "'a::len bitmask \<Rightarrow> 'a bitmask \<Rightarrow> bool" where
  "is_set_bm this other = (mask_value this AND mask_value other = mask_value other)"

text \<open>
  \<^verbatim>\<open>set(enum_type flag)\<close> is \<^verbatim>\<open>return *this |= flag\<close> and \<^verbatim>\<open>remove(enum_type flag)\<close>
  is \<^verbatim>\<open>return *this ^= flag\<close>. The overloads taking a \<^verbatim>\<open>bitmask\<close> pass
  \<^verbatim>\<open>other.mask_\<close> to the same compound assignments; the properties below are about
  flag values, so the \<^verbatim>\<open>enum_type\<close> overloads are the ones embedded.
\<close>

definition set_et :: "'a::len bitmask \<Rightarrow> 'a enum_type \<Rightarrow> 'a bitmask" where
  "set_et this flag = operator_or_assign_et this flag"

definition remove_et :: "'a::len bitmask \<Rightarrow> 'a enum_type \<Rightarrow> 'a bitmask" where
  "remove_et this flag = operator_xor_assign_et this flag"

subsection \<open>Member comparisons against a raw enum value\<close>

text \<open>
  The class declares no comparison taking \<^verbatim>\<open>enum_type\<close>. In an expression such as
  \<^verbatim>\<open>m < e\<close> with a raw enum value on the right, overload resolution picks one of
  the members above: an unscoped enumeration promotes to \<^verbatim>\<open>mask_type\<close> (a standard
  conversion, preferred), a scoped one can only be converted through the implicit
  constructor \<^verbatim>\<open>bitmask(enum_type)\<close>. For \<^verbatim>\<open>==\<close> and \<^verbatim>\<open>!=\<close> these are the
  members chosen when only members are viable.
\<close>

definition member_eq_et :: "enum_info \<Rightarrow> 'a::len bitmask \<Rightarrow> 'a enum_type \<Rightarrow> bool" where
  "member_eq_et E this e =
     (if is_scoped_enum_v E then operator_eq_bm this (bitmask_et e) else operator_eq_mt this e)"

definition member_ne_et :: "enum_info \<Rightarrow> 'a::len bitmask \<Rightarrow> 'a enum_type \<Rightarrow> bool" where
  "member_ne_et E this e =
     (if is_scoped_enum_v E then operator_ne_bm this (bitmask_et e) else operator_ne_mt this e)"

definition operator_le_et :: "enum_info \<Rightarrow> 'a::len bitmask \<Rightarrow> 'a enum_type \<Rightarrow> bool" where
  "operator_le_et E this e =
     (if is_scoped_enum_v E then operator_le_bm E this (bitmask_et e) else operator_le_mt E this e)"

definition operator_ge_et :: "enum_info \<Rightarrow> 'a::len bitmask \<Rightarrow> 'a enum_type \<Rightarrow> bool" where
  "operator_ge_et E this e =
     (if is_scoped_enum_v E then operator_ge_bm E this (bitmask_et e) else operator_ge_mt E this e)"

definition operator_lt_et :: "enum_info \<Rightarrow> 'a::len bitmask \<Rightarrow> 'a enum_type \<Rightarrow> bool" where
  "operator_lt_et E this e =
     (if is_scoped_enum_v E then operator_lt_bm E this (bitmask_et e) else operator_lt_mt E this e)"

definition operator_gt_et :: "enum_info \<Rightarrow> 'a::len bitmask \<Rightarrow> 'a enum_type \<Rightarrow> bool" where
  "operator_gt_et E this e =
     (if is_scoped_enum_v E then operator_gt_bm E this (bitmask_et e) else operator_gt_mt E this e)"

section \<open>The free operators\<close>

text \<open>
  Each free comparison returns the comparison with the operands swapped
  (\<^verbatim>\<open>return right == left;\<close>), the four ordering operators with the mirrored
  operator (\<^verbatim>\<open>operator>=\<close> returns \<^verbatim>\<open>right <= left\<close>, and so on). First the
  overloads with a raw enum value on the left.
\<close>

subsection \<open>Equality against a raw enum value\<close>

text \<open>
  Which function the expression \<^verbatim>\<open>m == e\<close> (a mask and a raw enum value) calls
  depends on the language standard. Up to C++17, and in C++20 for a compiler that applies
  P2468R2, only the members are viable. In C++20 as published the free
  \<^verbatim>\<open>operator==(T left, bitmask<T> right)\<close> is also a candidate with its parameters
  reversed; it matches both operands exactly, while every member needs a conversion of
  \<open>e\<close>, so it is selected. Its body is \<^verbatim>\<open>return right == left;\<close> with \<open>right = m\<close>
  and \<open>left = e\<close>: the same expression again. The flag \<open>reversed\<close> says that the
  translation unit is compiled that way. A call that does not return has the value
  \<open>None\<close>.
\<close>

partial_function (option) operator_eq_et ::
  "bool \<Rightarrow> enum_info \<Rightarrow> 'a::len bitmask \<Rightarrow> 'a enum_type \<Rightarrow> bool option" where
  "operator_eq_et reversed E this e =
     (if reversed then operator_eq_et reversed E this e
      else Some (member_eq_et E this e))"

text \<open>The free \<^verbatim>\<open>operator==(T left, bitmask<T> right)\<close>: \<^verbatim>\<open>return right == left;\<close>.\<close>

definition free_operator_eq_et ::
  "bool \<Rightarrow> enum_info \<Rightarrow> 'a::len enum_type \<Rightarrow> 'a bitmask \<Rightarrow> bool option" where
  "free_operator_eq_et reversed E left right = operator_eq_et reversed E right left"

text \<open>
  The expression \<^verbatim>\<open>m != e\<close>: in C++20 as published the rewritten candidate
  \<^verbatim>\<open>!(e == m)\<close> through the free \<^verbatim>\<open>operator==\<close> is the exact match and is selected;
  otherwise a member \<^verbatim>\<open>operator!=\<close> is.
\<close>

definition operator_ne_et ::
  "bool \<Rightarrow> enum_info \<Rightarrow> 'a::len bitmask \<Rightarrow> 'a enum_type \<Rightarrow> bool option" where
  "operator_ne_et reversed E this e =
     (if reversed then map_option Not (free_operator_eq_et reversed E e this)
      else Some (member_ne_et E this e))"

text \<open>The free \<^verbatim>\<open>operator!=(T left, bitmask<T> right)\<close>: \<^verbatim>\<open>return right != left;\<close>.\<close>

definition free_operator_ne_et ::
  "bool \<Rightarrow> enum_info \<Rightarrow> 'a::len enum_type \<Rightarrow> 'a bitmask \<Rightarrow> bool option" where
  "free_operator_ne_et reversed E left right = operator_ne_et reversed E right left"

subsection \<open>Ordering against a raw enum value\<close>

text \<open>No \<^verbatim>\<open>operator<=>\<close> is declared, so the ordering operators have no rewritten
  candidates under any standard.\<close>

definition free_operator_ge_et :: "enum_info \<Rightarrow> 'a::len enum_type \<Rightarrow> 'a bitmask \<Rightarrow> bool" where
  "free_operator_ge_et E left right = operator_le_et E right left"

definition free_operator_le_et :: "enum_info \<Rightarrow> 'a::len enum_type \<Rightarrow> 'a bitmask \<Rightarrow> bool" where
  "free_operator_le_et E left right = operator_ge_et E right left"

definition free_operator_lt_et :: "enum_info \<Rightarrow> 'a::len enum_type \<Rightarrow> 'a bitmask \<Rightarrow> bool" where
  "free_operator_lt_et E left right = operator_gt_et E right left"

definition free_operator_gt_et :: "enum_info \<Rightarrow> 'a::len enum_type \<Rightarrow> 'a bitmask \<Rightarrow> bool" where
  "free_operator_gt_et E left right = operator_lt_et E right left"

subsection \<open>A raw underlying integer on the left\<close>

text \<open>With a raw underlying integer on the left the member taking \<^verbatim>\<open>mask_type\<close> is an
  exact match and, not being a template, is preferred to any candidate formed from the
  free templates, under every standard.\<close>

definition free_operator_eq_mt :: "'a::len mask_type \<Rightarrow> 'a bitmask \<Rightarrow> bool" where
  "free_operator_eq_mt left right = operator_eq_mt right left"

definition free_operator_ne_mt :: "'a::len mask_type \<Rightarrow> 'a bitmask \<Rightarrow> bool" where
  "free_operator_ne_mt left right = operator_ne_mt right left"

definition free_operator_ge_mt :: "enum_info \<Rightarrow> 'a::len mask_type \<Rightarrow> 'a bitmask \<Rightarrow> bool" where
  "free_operator_ge_mt E left right = operator_le_mt E right left"

definition free_operator_le_mt :: "enum_info \<Rightarrow> 'a::len mask_type \<Rightarrow> 'a bitmask \<Rightarrow> bool" where
  "free_operator_le_mt E left right = operator_ge_mt E right left"

definition free_operator_lt_mt :: "enum_info \<Rightarrow> 'a::len mask_type \<Rightarrow> 'a bitmask \<Rightarrow> bool" where
  "free_operator_lt_mt E left right = operator_gt_mt E right left"

definition free_operator_gt_mt :: "enum_info \<Rightarrow> 'a::len mask_type \<Rightarrow> 'a bitmask \<Rightarrow> bool" where
  "free_operator_gt_mt E left right = operator_lt_mt E right left"

subsection \<open>Bitwise operators on raw enum values\<close>

text \<open>The operators on raw enum values: \<^verbatim>\<open>~bitmask<T>(flag)\<close> and
  \<^verbatim>\<open>bitmask<T>(left) OP right\<close>.\<close>

definition free_operator_not :: "'a::len bitmask_traits \<Rightarrow> 'a enum_type \<Rightarrow> 'a bitmask" where
  "free_operator_not tr flag = operator_not tr (bitmask_et flag)"

definition free_operator_xor :: "'a::len enum_type \<Rightarrow> 'a enum_type \<Rightarrow> 'a bitmask" where
  "free_operator_xor left right = operator_xor_et (bitmask_et left) right"

definition free_operator_or :: "'a::len enum_type \<Rightarrow> 'a enum_type \<Rightarrow> 'a bitmask" where
  "free_operator_or left right = operator_or_et (bitmask_et left) right"

definition free_operator_and :: "'a::len enum_type \<Rightarrow> 'a enum_type \<Rightarrow> 'a bitmask" where
  "free_operator_and left right = operator_and_et (bitmask_et left) right"

section \<open>The enumeration of the test suite\<close>

text \<open>
  \<^verbatim>\<open>enum simple_bitmask_flag_bits : uint16_t\<close> with the bits \<open>0x01\<close>, \<open>0x04\<close> and
  \<open>0x08\<close>, registered with \<^verbatim>\<open>DEADDEV_ENABLE_BITMASK\<close> and those three flags.
\<close>

definition SIMPLE_BITMASK_OPTION_0_BIT :: "16 enum_type" where
  "SIMPLE_BITMASK_OPTION_0_BIT = 1"

definition SIMPLE_BITMASK_OPTION_1_BIT :: "16 enum_type" where
  "SIMPLE_BITMASK_OPTION_1_BIT = 4"

definition SIMPLE_BITMASK_OPTION_2_BIT :: "16 enum_type" where
  "SIMPLE_BITMASK_OPTION_2_BIT = 8"

definition simple_bitmask_traits :: "16 bitmask_traits" where
  "simple_bitmask_traits = \<lparr>enable = True, all_flags = 13\<rparr>"


section \<open>Properties\<close>

subsection \<open>Shared facts\<close>

lemma simple_bitmask_registration:
  "DEADDEV_ENABLE_BITMASK cpp17
     [SIMPLE_BITMASK_OPTION_0_BIT, SIMPLE_BITMASK_OPTION_1_BIT, SIMPLE_BITMASK_OPTION_2_BIT]
   = Some simple_bitmask_traits"
  by (simp add: DEADDEV_ENABLE_BITMASK_def calculate_all_flags_def
      calculate_all_flags_cpp_17_def combine_flags_def simple_bitmask_traits_def
      SIMPLE_BITMASK_OPTION_0_BIT_def SIMPLE_BITMASK_OPTION_1_BIT_def
      SIMPLE_BITMASK_OPTION_2_BIT_def)

lemma mask_value_operator_not:
  "mask_value (operator_not tr m) = mask_value m XOR all_flags tr"
  by (simp add: operator_not_def bitmask_mt_def all_flags_m_def bitmask_et_def
      bitmask_all_flags_v_def)

lemma mask_value_remove_et: "mask_value (remove_et m f) = mask_value m XOR f"
  by (simp add: remove_et_def operator_xor_assign_et_def)

lemma mask_value_set_et: "mask_value (set_et m f) = mask_value m OR f"
  by (simp add: set_et_def operator_or_assign_et_def)

lemma bitmask_eqI: "mask_value a = mask_value b \<Longrightarrow> a = (b :: 'a::len bitmask)"
  by simp

lemma simple_all_flags_m: "mask_value (all_flags_m simple_bitmask_traits) = 13"
  by (simp add: all_flags_m_def bitmask_all_flags_v_def bitmask_et_def
      simple_bitmask_traits_def)

lemma simple_all_flags: "all_flags simple_bitmask_traits = 13"
  by (simp add: simple_bitmask_traits_def)

text \<open>Facts about the bitwise operations on words that the properties rest on.\<close>

lemma word_xor_twice: "(m XOR f) XOR f = (m :: 'a::len word)"
  by (simp add: xor.assoc)

lemma word_xor_or_absorb: "(v XOR f) OR f = v OR (f :: 'a::len word)"
  by (rule bit_word_eqI) (auto simp: bit_simps)

lemma word_subset_or_iff:
  "(m AND (a OR b) = a OR b) = (m AND a = a \<and> m AND b = (b :: 'a::len word))"
  by (auto simp: bit_eq_iff bit_simps)

lemma word_xor_clears_iff: "((m XOR f) AND f = 0) = (m AND f = (f :: 'a::len word))"
  by (auto simp: bit_eq_iff bit_simps)

lemma word_xor_is_andnot_iff: "(m XOR f = m AND NOT f) = (m AND f = (f :: 'a::len word))"
  by (auto simp: bit_eq_iff bit_simps)


lemma word_and_xor_relative_complement: "(m AND f) XOR f = f AND NOT (m :: 'a::len word)"
  by (auto simp: bit_eq_iff bit_simps)

text \<open>The all-flags calculation, bit by bit.\<close>

lemma bit_foldl_combine_flags:
  "bit (foldl combine_flags acc args) n = (bit acc n \<or> (\<exists>f\<in>set args. bit f n))"
  by (induction args arbitrary: acc) (auto simp: combine_flags_def bit_simps)

lemma bit_calculate_all_flags_cpp_17:
  "bit (calculate_all_flags_cpp_17 args) n = (\<exists>f\<in>set args. bit f n)"
  by (simp add: calculate_all_flags_cpp_17_def bit_foldl_combine_flags)

lemma bit_calculate_all_flags_cpp_before_17:
  "bit (calculate_all_flags_cpp_before_17 a args) n = (\<exists>f\<in>set (a # args). bit f n)"
  by (induction a args rule: calculate_all_flags_cpp_before_17.induct) (auto simp: bit_simps)

text \<open>A non-empty flag list registers the bitwise OR of the listed values, under both
  language standards.\<close>

lemma calculate_all_flags_nonempty:
  assumes "flagList \<noteq> []"
  shows "\<exists>af. calculate_all_flags cpp17 flagList = Some af
     \<and> (\<forall>n. bit af n = (\<exists>f\<in>set flagList. bit f n))"
proof (cases flagList)
  case Nil
  with assms show ?thesis by simp
next
  case (Cons a rest)
  then show ?thesis
    by (simp add: calculate_all_flags_def bit_calculate_all_flags_cpp_17
        bit_calculate_all_flags_cpp_before_17 del: calculate_all_flags_cpp_before_17.simps)
qed

lemma enable_bitmask_nonempty:
  assumes "flagList \<noteq> []"
  shows "\<exists>tr. DEADDEV_ENABLE_BITMASK cpp17 flagList = Some tr
     \<and> DEADDEV_ENABLE_BITMASK_EXTERNAL cpp17 flagList = Some tr
     \<and> enable tr
     \<and> (\<forall>n. bit (all_flags tr) n = (\<exists>f\<in>set flagList. bit f n))"
proof -
  from calculate_all_flags_nonempty [OF assms, of cpp17]
  obtain af where "calculate_all_flags cpp17 flagList = Some af"
    and "\<forall>n. bit af n = (\<exists>f\<in>set flagList. bit f n)"
    by blast
  then show ?thesis
    by (simp add: DEADDEV_ENABLE_BITMASK_def DEADDEV_ENABLE_BITMASK_EXTERNAL_def)
qed

text \<open>The width default gives the all-ones pattern for an underlying type narrower than
  \<^verbatim>\<open>int\<close>, and no value for one as wide as \<^verbatim>\<open>int\<close> or wider.\<close>

lemma calculate_all_flags_default_narrow:
  assumes "CHAR_BIT dvd LENGTH('a::len)" and "LENGTH('a) < 31"
  shows "calculate_all_flags_default TYPE('a) = Some (- 1)"
proof -
  have sz: "sizeof TYPE('a) * CHAR_BIT = LENGTH('a)"
    using assms(1) by (simp add: sizeof_def)
  have "(2::int) ^ LENGTH('a) \<le> 2 ^ 30"
    using assms(2) by (intro power_increasing) simp_all
  then have le: "(2::int) ^ LENGTH('a) \<le> 2147483647" by simp
  have shl: "shl_int 1 (LENGTH('a)) = Some (2 ^ LENGTH('a))"
    using assms(2) le by (simp add: shl_int_def INT_WIDTH_def INT_MAX_def)
  have pos: "(0::int) < 2 ^ LENGTH('a)" by simp
  have sub: "sub_int (2 ^ LENGTH('a)) 1 = Some (2 ^ LENGTH('a) - 1)"
    using le pos by (simp add: sub_int_def INT_MIN_def INT_MAX_def del: zero_less_power)
  show ?thesis
    by (simp add: calculate_all_flags_default_def sz shl sub)
qed

lemma enable_bitmask_empty_list_narrow:
  assumes "CHAR_BIT dvd LENGTH('a::len)" and "LENGTH('a) < 31"
  shows "DEADDEV_ENABLE_BITMASK cpp17 ([] :: 'a enum_type list)
           = Some \<lparr>enable = True, all_flags = - 1\<rparr>
     \<and> DEADDEV_ENABLE_BITMASK_EXTERNAL cpp17 ([] :: 'a enum_type list)
           = Some \<lparr>enable = True, all_flags = - 1\<rparr>"
  by (simp add: DEADDEV_ENABLE_BITMASK_def DEADDEV_ENABLE_BITMASK_EXTERNAL_def
      calculate_all_flags_def calculate_all_flags_default_narrow [OF assms])

lemma calculate_all_flags_default_uint8: "calculate_all_flags_default TYPE(8) = Some 255"
  by (simp add: calculate_all_flags_default_def sizeof_def CHAR_BIT_def shl_int_def sub_int_def
      INT_WIDTH_def INT_MAX_def INT_MIN_def)


lemma calculate_all_flags_default_wide:
  assumes "CHAR_BIT dvd LENGTH('a::len)" and "32 \<le> LENGTH('a)"
  shows "calculate_all_flags_default TYPE('a) = None"
proof -
  have sz: "sizeof TYPE('a) * CHAR_BIT = LENGTH('a)"
    using assms(1) by (simp add: sizeof_def)
  show ?thesis
    using assms(2) by (simp add: calculate_all_flags_default_def sz shl_int_def INT_WIDTH_def)
qed

text \<open>The comparisons, read on the numbers the operands stand for.\<close>

lemma operator_et_value:
  "member_eq_et E a b = (mask_value a = b)"
  "member_ne_et E a b = (mask_value a \<noteq> b)"
  "operator_le_et E a b = (value_of E (mask_value a) \<le> value_of E b)"
  "operator_ge_et E a b = (value_of E (mask_value a) \<ge> value_of E b)"
  "operator_lt_et E a b = (value_of E (mask_value a) < value_of E b)"
  "operator_gt_et E a b = (value_of E (mask_value a) > value_of E b)"
  by (simp_all add: member_eq_et_def member_ne_et_def operator_le_et_def
      operator_ge_et_def operator_lt_et_def operator_gt_et_def
      operator_eq_bm_def operator_ne_bm_def operator_le_bm_def
      operator_ge_bm_def operator_lt_bm_def operator_gt_bm_def
      operator_eq_mt_def operator_ne_mt_def operator_le_mt_def
      operator_ge_mt_def operator_lt_mt_def operator_gt_mt_def bitmask_et_def)

lemma free_operator_et_value:
  "free_operator_le_et E b a = (value_of E b \<le> value_of E (mask_value a))"
  "free_operator_ge_et E b a = (value_of E b \<ge> value_of E (mask_value a))"
  "free_operator_lt_et E b a = (value_of E b < value_of E (mask_value a))"
  "free_operator_gt_et E b a = (value_of E b > value_of E (mask_value a))"
  by (auto simp add: free_operator_le_et_def free_operator_ge_et_def free_operator_lt_et_def
      free_operator_gt_et_def operator_et_value)

lemma free_operator_mt_value:
  "free_operator_eq_mt b a = (b = mask_value a)"
  "free_operator_ne_mt b a = (b \<noteq> mask_value a)"
  "free_operator_le_mt E b a = (value_of E b \<le> value_of E (mask_value a))"
  "free_operator_ge_mt E b a = (value_of E b \<ge> value_of E (mask_value a))"
  "free_operator_lt_mt E b a = (value_of E b < value_of E (mask_value a))"
  "free_operator_gt_mt E b a = (value_of E b > value_of E (mask_value a))"
  by (auto simp add: free_operator_eq_mt_def free_operator_ne_mt_def free_operator_le_mt_def
      free_operator_ge_mt_def free_operator_lt_mt_def free_operator_gt_mt_def
      operator_eq_mt_def operator_ne_mt_def operator_le_mt_def
      operator_ge_mt_def operator_lt_mt_def operator_gt_mt_def)

text \<open>
  Equality against a raw enum value. When only the members are viable, all four forms
  return, and the free forms return what the mask-first forms return.
\<close>

lemma operator_eq_et_members: "operator_eq_et False E a b = Some (mask_value a = b)"
  by (subst operator_eq_et.simps) (simp add: operator_et_value)

lemma free_equality_et_members:
  "free_operator_eq_et False E b a = Some (b = mask_value a)
   \<and> free_operator_ne_et False E b a = Some (b \<noteq> mask_value a)
   \<and> free_operator_eq_et False E b a = operator_eq_et False E a b
   \<and> free_operator_ne_et False E b a = operator_ne_et False E a b"
  by (auto simp add: free_operator_eq_et_def free_operator_ne_et_def operator_ne_et_def
      operator_eq_et_members operator_et_value)

text \<open>When the reversed candidate is selected, a call that returns would have to be
  justified by a call that returns: there is none.\<close>

lemma operator_eq_et_returns_only_members:
  "operator_eq_et reversed E a b = Some y \<Longrightarrow> \<not> reversed"
proof -
  assume ret: "operator_eq_et reversed E a b = Some y"
  show ?thesis
    by (rule operator_eq_et.raw_induct [where P = "\<lambda>r E a b y. \<not> r", OF _ ret])
      (fastforce split: if_splits)
qed

lemma operator_eq_et_reversed: "operator_eq_et True E a b = None"
proof (cases "operator_eq_et True E a b")
  case None
  then show ?thesis .
next
  case (Some y)
  from operator_eq_et_returns_only_members [OF this] show ?thesis by simp
qed

text \<open>The ordering operators against a raw enum value, the comparisons against a raw
  integer and the bitwise operators on raw enum values, under every standard.\<close>

lemma free_ordering_et_delegate:
  "free_operator_le_et E b a = operator_ge_et E a b
   \<and> free_operator_ge_et E b a = operator_le_et E a b
   \<and> free_operator_lt_et E b a = operator_gt_et E a b
   \<and> free_operator_gt_et E b a = operator_lt_et E a b"
  by (simp add: free_operator_le_et_def free_operator_ge_et_def free_operator_lt_et_def
      free_operator_gt_et_def)

lemma free_comparisons_mt_delegate:
  "free_operator_eq_mt c a = operator_eq_mt a c
   \<and> free_operator_ne_mt c a = operator_ne_mt a c
   \<and> free_operator_le_mt E c a = operator_ge_mt E a c
   \<and> free_operator_ge_mt E c a = operator_le_mt E a c
   \<and> free_operator_lt_mt E c a = operator_gt_mt E a c
   \<and> free_operator_gt_mt E c a = operator_lt_mt E a c"
  by (simp add: free_operator_eq_mt_def free_operator_ne_mt_def free_operator_le_mt_def
      free_operator_ge_mt_def free_operator_lt_mt_def free_operator_gt_mt_def)

lemma member_lt_is_not_free_le:
  "operator_lt_et E a b = (\<not> free_operator_le_et E b a)
   \<and> operator_lt_mt E a c = (\<not> free_operator_le_mt E c a)"
  by (auto simp add: operator_et_value free_operator_et_value free_operator_mt_value
      operator_lt_mt_def)

lemma free_enum_operators_on_masks:
  "free_operator_or l r = operator_or_bm (bitmask_et l) (bitmask_et r)
   \<and> free_operator_and l r = operator_and_bm (bitmask_et l) (bitmask_et r)
   \<and> free_operator_xor l r = operator_xor_bm (bitmask_et l) (bitmask_et r)
   \<and> free_operator_not tr l = operator_not tr (bitmask_et l)"
  by (simp add: free_operator_or_def free_operator_and_def free_operator_xor_def
      free_operator_not_def operator_or_et_def operator_and_et_def operator_xor_et_def
      operator_or_bm_def operator_and_bm_def operator_xor_bm_def bitmask_et_def)

text \<open>On the part of a mask inside the universe, negation is the universe without it.\<close>

lemma operator_not_relative_complement:
  "mask_value (operator_not tr (operator_and_bm m (all_flags_m tr)))
     = mask_value (all_flags_m tr) AND NOT (mask_value m)"
  by (simp add: operator_not_def operator_and_bm_def bitmask_mt_def
      word_and_xor_relative_complement)



subsection \<open>Negation\<close>

text \<open>
  Claim C1 says that \<^verbatim>\<open>~m\<close> clears every bit of \<open>m\<close> outside the registered all-flags
  pattern. The operator is \<^verbatim>\<open>mask_ ^ all_flags().mask_\<close>, and XOR with a pattern leaves
  the positions outside the pattern as they are. For the enumeration of the tests
  (all-flags \<open>0x0D\<close>) and the mask built from the raw integer \<open>0x10\<close>: bit 4 is outside
  the pattern, is set in the mask and is still set in its negation.
\<close>

theorem operator_not_outside_all_flags_counterexample:
  "\<not> bit (mask_value (all_flags_m simple_bitmask_traits)) 4
   \<and> bit (mask_value (bitmask_mt (16 :: 16 mask_type))) 4
   \<and> bit (mask_value (operator_not simple_bitmask_traits (bitmask_mt 16))) 4"
  by (simp add: simple_all_flags_m mask_value_operator_not simple_all_flags bitmask_mt_def)

text \<open>
  Claim C1, amended: for every bitmask \<open>m\<close>, a bit position that is not set in
  \<^verbatim>\<open>all_flags()\<close> has the same value in \<^verbatim>\<open>~m\<close> as in \<open>m\<close>; it is 0 in \<^verbatim>\<open>~m\<close> exactly
  when it is 0 in \<open>m\<close>.
\<close>

theorem operator_not_keeps_bits_outside_all_flags:
  "\<not> bit (mask_value (all_flags_m tr)) n \<Longrightarrow>
   bit (mask_value (operator_not tr m)) n = bit (mask_value m) n"
  by (simp add: operator_not_def bitmask_mt_def bit_simps)

theorem operator_not_keeps_bits_outside_all_flags_witness:
  "\<not> bit (mask_value (all_flags_m simple_bitmask_traits)) 4
   \<and> bit (mask_value (operator_not simple_bitmask_traits (bitmask_mt 16))) 4
     = bit (mask_value (bitmask_mt (16 :: 16 mask_type))) 4"
proof -
  have outside: "\<not> bit (mask_value (all_flags_m simple_bitmask_traits)) 4"
    by (simp add: simple_all_flags_m)
  show ?thesis
    using outside operator_not_keeps_bits_outside_all_flags [OF outside, of "bitmask_mt 16"]
    by simp
qed

text \<open>
  Claim C2 says that \<^verbatim>\<open>~(~m) == (m & all_flags())\<close> for all masks, also for those with
  bits outside the declared universe. For the enumeration of the tests and the mask
  \<open>0x10\<close> the left side is \<open>0x10\<close> again and the right side is \<open>0\<close>.
\<close>

theorem double_negation_and_all_flags_counterexample:
  "\<not> operator_eq_bm
       (operator_not simple_bitmask_traits
          (operator_not simple_bitmask_traits (bitmask_mt (16 :: 16 mask_type))))
       (operator_and_bm (bitmask_mt 16) (all_flags_m simple_bitmask_traits))"
  by (simp add: operator_eq_bm_def mask_value_operator_not operator_and_bm_def
      bitmask_mt_def simple_all_flags_m simple_all_flags)

text \<open>
  Claim C2, amended: \<^verbatim>\<open>~(~m) == (m & all_flags())\<close> holds exactly for the masks \<open>m\<close>
  that have no bit outside the declared universe, that is, those with
  \<^verbatim>\<open>(m & all_flags()) == m\<close>.
\<close>

theorem double_negation_eq_and_all_flags_iff:
  "operator_eq_bm (operator_not tr (operator_not tr m)) (operator_and_bm m (all_flags_m tr))
   = operator_eq_bm (operator_and_bm m (all_flags_m tr)) m"
  by (auto simp add: operator_eq_bm_def mask_value_operator_not operator_and_bm_def
      bitmask_mt_def word_xor_twice)




text \<open>
  Claim C9: for every bitmask \<open>m\<close>, also one with bits outside the registered universe,
  negating twice gives \<open>m\<close> back exactly.
\<close>

theorem double_negation_identity: "operator_not tr (operator_not tr m) = m"
  by (rule bitmask_eqI) (simp add: mask_value_operator_not word_xor_twice)

subsection \<open>Membership, \<^verbatim>\<open>set\<close> and \<^verbatim>\<open>remove\<close>\<close>

text \<open>
  Claim C4: \<^verbatim>\<open>remove(f)\<close> changes \<open>m\<close> to \<open>m XOR f\<close>. The bits of \<open>f\<close> are all clear
  afterwards exactly when they were all set in \<open>m\<close>; every bit of \<open>f\<close> is toggled, so a
  bit of \<open>f\<close> that was not set in \<open>m\<close> is set afterwards; and the result is the AND-NOT
  clear of \<open>f\<close> only when \<open>f\<close> was fully set.
\<close>

theorem remove_is_xor_toggle:
  "mask_value (remove_et m f) = mask_value m XOR f
   \<and> (mask_value (remove_et m f) AND f = 0) = is_set_et m f
   \<and> bit (mask_value (remove_et m f)) n = (bit (mask_value m) n \<noteq> bit f n)
   \<and> (mask_value (remove_et m f) = mask_value m AND NOT f) = is_set_et m f"
  by (simp add: mask_value_remove_et is_set_et_def word_xor_clears_iff
      word_xor_is_andnot_iff bit_simps)

text \<open>
  Claim C6: \<^verbatim>\<open>m.is_set(a | b)\<close> is true if and only if \<^verbatim>\<open>m.is_set(a)\<close> and
  \<^verbatim>\<open>m.is_set(b)\<close> both are, where \<^verbatim>\<open>is_set(f)\<close> is \<^verbatim>\<open>(m & f) == f\<close> on the underlying
  integers.
\<close>

theorem is_set_or_iff:
  "is_set_bm m (free_operator_or a b) = (is_set_et m a \<and> is_set_et m b)
   \<and> is_set_et m f = (mask_value m AND f = f)"
  by (simp add: is_set_bm_def is_set_et_def free_operator_or_def operator_or_et_def
      bitmask_mt_def bitmask_et_def word_subset_or_iff)

text \<open>
  Claim C7: \<^verbatim>\<open>remove(f)\<close> followed by \<^verbatim>\<open>set(f)\<close> leaves the mask equal to the original
  united with \<open>f\<close>: starting from the mask value \<open>v\<close> the result is \<open>v | f\<close>.
\<close>

theorem remove_then_set_is_union:
  "set_et (remove_et m f) f = operator_or_et m f
   \<and> mask_value (set_et (remove_et (bitmask_mt v) f) f) = v OR f"
  by (simp add: mask_value_set_et mask_value_remove_et word_xor_or_absorb bitmask_mt_def
      operator_or_et_def bitmask_eqI)

text \<open>
  Claim C10: applying \<^verbatim>\<open>remove(f)\<close> twice restores \<open>m\<close> exactly, whether or not the
  bits of \<open>f\<close> were set in \<open>m\<close>.
\<close>

theorem remove_twice_identity: "remove_et (remove_et m f) f = m"
  by (rule bitmask_eqI) (simp add: mask_value_remove_et word_xor_twice)

subsection \<open>Registration\<close>

text \<open>
  Claim C5: a registration with a non-empty flag list records the bitwise OR of the listed
  values, and one with an empty list records the pattern with every bit of the underlying
  type set. The first half holds (\<open>enable_bitmask_nonempty\<close>), and so does the second
  for 8- and 16-bit underlying types (\<open>enable_bitmask_empty_list_narrow\<close>). For an
  enumeration whose underlying type is \<^verbatim>\<open>int\<close>, the default of a scoped enumeration,
  \<^verbatim>\<open>1 << (sizeof(T) * CHAR_BIT)\<close> shifts an \<^verbatim>\<open>int\<close> by its own width: the expression
  has no value and the registration yields no descriptor, where the documentation of
  \<^verbatim>\<open>calculate_all_flags\<close> promises \<^verbatim>\<open>(T)-1\<close>.
\<close>

theorem enable_bitmask_empty_list_int:
  "DEADDEV_ENABLE_BITMASK cpp17 ([] :: 32 enum_type list) = None
   \<and> DEADDEV_ENABLE_BITMASK_EXTERNAL cpp17 ([] :: 32 enum_type list) = None"
  by (simp add: DEADDEV_ENABLE_BITMASK_def DEADDEV_ENABLE_BITMASK_EXTERNAL_def
      calculate_all_flags_def calculate_all_flags_default_def sizeof_def CHAR_BIT_def
      shl_int_def INT_WIDTH_def)

subsection \<open>Free operators\<close>

text \<open>
  Claim C8: with a raw value on the left, each free operator returns what the mask-first
  member operator returns. This holds for the ordering operators, for a raw integer on the
  left and for the bitwise operators on raw enum values (\<open>free_ordering_et_delegate\<close>,
  \<open>free_comparisons_mt_delegate\<close>, \<open>member_lt_is_not_free_le\<close>,
  \<open>free_enum_operators_on_masks\<close>), and for \<^verbatim>\<open>==\<close> and \<^verbatim>\<open>!=\<close> against a raw enum value
  when only the members are viable (\<open>free_equality_et_members\<close>). Compiled as C++20 as
  published, which the header provides for, \<^verbatim>\<open>return right == left;\<close> in the free
  \<^verbatim>\<open>operator==(T, bitmask<T>)\<close> selects that same function with its parameters
  reversed: the free \<^verbatim>\<open>==\<close> and \<^verbatim>\<open>!=\<close> with a raw enum value on the left, and the
  mask-first forms, never return.
\<close>

theorem free_equality_et_reversed_never_returns:
  "free_operator_eq_et True E b a = None
   \<and> free_operator_ne_et True E b a = None
   \<and> operator_eq_et True E a b = None
   \<and> operator_ne_et True E a b = None"
  by (simp add: free_operator_eq_et_def free_operator_ne_et_def operator_ne_et_def
      operator_eq_et_reversed)

end
